theory Spec2Isabelle
  imports Complex_Main "HOL-Library.Log_Nat"
begin

section \<open>Data model (lib/supabase.ts)\<close>

text \<open>
  The three tables of the persistence gateway. Timestamps and identifiers are strings, as
  in the TypeScript interfaces; a nullable column is an \<open>option\<close>. Record fields share
  one name space, so the fields of \<open>Plane\<close> and \<open>Session\<close> that would clash with those of
  \<open>Device\<close> carry a prefix. \<open>run_seconds\<close> is a JavaScript number holding a whole number
  of seconds: an \<open>int\<close>.
\<close>

record Plane =
  plane_ident :: string
  plane_user_id :: string
  tail_number :: string
  plane_model :: "string option"
  manufacturer :: "string option"
  plane_created_at :: string
  plane_updated_at :: string

record Device =
  device_uuid :: string
  user_id :: "string option"
  plane_id :: "string option"
  name :: "string option"
  created_at :: string
  updated_at :: string
  last_seen :: "string option"
  plane :: "Plane option"

datatype status = Open | Closed

record Session =
  session_id :: string
  session_device_uuid :: string
  session_start :: string
  run_seconds :: int
  last_update :: "string option"
  status :: status
  msg_id :: string
  session_created_at :: string
  session_updated_at :: string

text \<open>The string a status has in the database and in the filter drop-down.\<close>

fun status_str :: "status \<Rightarrow> string" where
  "status_str Open = ''open''"
| "status_str Closed = ''closed''"

text \<open>A session record with the given status and duration and blank other columns.\<close>

definition mkSession :: "status \<Rightarrow> int \<Rightarrow> Session" where
  "mkSession st secs =
     \<lparr>session_id = '''', session_device_uuid = '''', session_start = '''',
      run_seconds = secs, last_update = None, status = st, msg_id = '''',
      session_created_at = '''', session_updated_at = ''''\<rparr>"

section \<open>Numbers and strings of the JavaScript runtime\<close>

text \<open>
  A whole number of seconds is an \<open>int\<close> (a double holds it exactly below \<open>2 ^ 53\<close>); the
  value of any other number is a \<open>rat\<close>, the exact value of the double. A division or a
  multiplication that can leave the whole numbers gives the double nearest to the exact
  result, of two equally near the one with the even mantissa (\<open>to_double\<close>: 53 bits of
  mantissa; the exponent is not bounded, so neither overflow nor the subnormal range is
  part of the model). The divisors in the source are the constants 3600 and 10.
  \<open>Math.round\<close> takes the exact value of its argument to the nearest integer, a tie
  upwards. The mean in the statistics is taken exactly.
\<close>

definition round_half_even :: "rat \<Rightarrow> int" where
  "round_half_even x =
     (let f = \<lfloor>x\<rfloor>; r = x - of_int f
      in if r < 1 / 2 then f else if 1 / 2 < r then f + 1 else if even f then f else f + 1)"

text \<open>For a positive \<open>x\<close>, the \<open>e\<close> with \<open>2 ^ e \<le> x < 2 ^ (e + 1)\<close>.\<close>

definition binary_exponent :: "rat \<Rightarrow> int" where
  "binary_exponent x =
     (let k = bitlen (fst (quotient_of x)) - bitlen (snd (quotient_of x))
      in if 2 powi k \<le> x then k else k - 1)"

definition to_double :: "rat \<Rightarrow> rat" where
  "to_double x =
     (if x = 0 then 0
      else
        let e = binary_exponent \<bar>x\<bar> - 52;
            m = round_half_even (\<bar>x\<bar> / 2 powi e)
        in sgn x * of_int m * 2 powi e)"

definition js_div :: "rat \<Rightarrow> rat \<Rightarrow> rat" where
  "js_div a b = to_double (a / b)"


definition Math_round :: "rat \<Rightarrow> int" where
  "Math_round x = \<lfloor>x + 1 / 2\<rfloor>"

definition digit_char :: "nat \<Rightarrow> char" where
  "digit_char d = ''0123456789'' ! d"

fun nat_digits :: "nat \<Rightarrow> string" where
  "nat_digits n =
     (if n < 10 then [digit_char n] else nat_digits (n div 10) @ [digit_char (n mod 10)])"

declare nat_digits.simps [simp del]

text \<open>
  The decimal string of a whole number, as a template literal renders it (for magnitudes
  below \<open>10 ^ 21\<close>, where the runtime writes all digits).
\<close>

definition int_str :: "int \<Rightarrow> string" where
  "int_str i = (if i < 0 then ''-'' @ nat_digits (nat (- i)) else nat_digits (nat i))"

text \<open>The remainder operator \<open>%\<close> takes the sign of the dividend.\<close>

definition js_rem :: "int \<Rightarrow> int \<Rightarrow> int" where
  "js_rem a b = (if a < 0 then - ((- a) mod \<bar>b\<bar>) else a mod \<bar>b\<bar>)"

text \<open>
  \<open>Number.prototype.toFixed\<close>, on the exact value of the double: the sign, then the
  integer \<open>n\<close> for which \<open>n / 10 ^ f\<close> is nearest to the magnitude (of two such, the larger),
  written with \<open>f\<close> digits after the point (\<open>place_point\<close> pads the digits with zeros and
  inserts the point). From \<open>10 ^ 21\<close> on the runtime switches to exponent notation, which
  is not modelled: the result is \<open>None\<close> there.
\<close>

definition place_point :: "nat \<Rightarrow> string \<Rightarrow> string" where
  "place_point f digits =
     (if f = 0 then digits
      else
        let m = (if length digits \<le> f
                 then replicate (f + 1 - length digits) (CHR ''0'') @ digits else digits);
            k = length m
        in take (k - f) m @ ''.'' @ drop (k - f) m)"

definition toFixed :: "nat \<Rightarrow> rat \<Rightarrow> string option" where
  "toFixed f x =
     (let s = (if x < 0 then ''-'' else '''');
          y = \<bar>x\<bar>
      in if 10 ^ 21 \<le> y then None
         else
           let n = nat \<lfloor>y * 10 ^ f + 1 / 2\<rfloor>
           in Some (s @ place_point f (nat_digits n)))"

definition join :: "string \<Rightarrow> string list \<Rightarrow> string" where
  "join sep xs = (case xs of [] \<Rightarrow> [] | y # ys \<Rightarrow> foldl (\<lambda>acc z. acc @ sep @ z) y ys)"

section \<open>Plane detail view (PlaneDetail.tsx)\<close>

record SessionStats =
  totalSessions :: nat
  totalFlightTime :: int
  activeSessions :: nat
  averageFlightTime :: int
  longestFlight :: int
  shortestFlight :: int

text \<open>
  The statistics block of \<open>fetchPlaneData\<close>. \<open>Math.max\<close> and \<open>Math.min\<close> are only called
  on the non-empty list of closed durations, as is the division.
\<close>

definition sessionStats :: "Session list \<Rightarrow> SessionStats" where
  "sessionStats allSessions =
     (let totalSessions = length allSessions;
          totalFlightTime = foldl (\<lambda>sum s. sum + run_seconds s) 0 allSessions;
          activeSessions = length (filter (\<lambda>s. status s = Open) allSessions);
          closedSessions = filter (\<lambda>s. status s = Closed) allSessions;
          times = map run_seconds closedSessions
      in case times of
           [] \<Rightarrow>
             \<lparr>totalSessions = totalSessions, totalFlightTime = totalFlightTime,
              activeSessions = activeSessions, averageFlightTime = 0,
              longestFlight = 0, shortestFlight = 0\<rparr>
         | t # ts \<Rightarrow>
             \<lparr>totalSessions = totalSessions, totalFlightTime = totalFlightTime,
              activeSessions = activeSessions,
              averageFlightTime =
                Math_round (of_int (foldl (\<lambda>a b. a + b) 0 times) / of_nat (length times)),
              longestFlight = foldl max t ts,
              shortestFlight = foldl min t ts\<rparr>)"

definition formatDuration :: "int \<Rightarrow> string" where
  "formatDuration seconds =
     (let hours = seconds div 3600;
          minutes = js_rem seconds 3600 div 60
      in int_str hours @ ''h '' @ int_str minutes @ ''m'')"

definition formatHobbs :: "int \<Rightarrow> string option" where
  "formatHobbs seconds = (let hours = js_div (of_int seconds) 3600 in toFixed 2 hours)"

text \<open>
  What the stat cards show. The average card shows \<open>N/A\<close> unless the stored average is
  positive; the row with the longest and the shortest flight is rendered only when the
  stored longest flight is positive. \<open>card_hobbs\<close> is the line below the duration.
\<close>

record FlightCard =
  card_duration :: string
  card_hobbs :: "string option"

definition hobbsLine :: "int \<Rightarrow> string option" where
  "hobbsLine seconds = map_option (\<lambda>h. h @ '' Hobbs'') (formatHobbs seconds)"

definition averageCard :: "SessionStats \<Rightarrow> FlightCard" where
  "averageCard stats =
     (if averageFlightTime stats > 0
      then \<lparr>card_duration = formatDuration (averageFlightTime stats),
            card_hobbs = hobbsLine (averageFlightTime stats)\<rparr>
      else \<lparr>card_duration = ''N/A'', card_hobbs = None\<rparr>)"

definition additionalStatsRow :: "SessionStats \<Rightarrow> (FlightCard \<times> FlightCard) option" where
  "additionalStatsRow stats =
     (if longestFlight stats > 0
      then Some (\<lparr>card_duration = formatDuration (longestFlight stats),
                   card_hobbs = hobbsLine (longestFlight stats)\<rparr>,
                 \<lparr>card_duration = formatDuration (shortestFlight stats),
                   card_hobbs = hobbsLine (shortestFlight stats)\<rparr>)
      else None)"

text \<open>
  An answer of the gateway: the rows, or nothing, and the error, if any. The answers are
  inputs of the model, so a query may fail or succeed in any combination.
\<close>

datatype 'a response = Response (rdata: "'a option") (rerror: "string option")

record DeviceWithStats = Device +
  sessionCount :: nat
  deviceTotalFlightTime :: int

record PlaneDetailState =
  pd_plane :: "Plane option"
  pd_devices :: "DeviceWithStats list"
  pd_recentSessions :: "Session list"
  pd_stats :: SessionStats
  pd_loading :: bool
  pd_error :: "string option"

text \<open>
  The per-device query reads only the \<open>data\<close> of the answer; \<open>sessionData?.length || 0\<close>
  and the guarded sum give zero when there is none.
\<close>

definition deviceWithStats :: "int list response \<Rightarrow> Device \<Rightarrow> DeviceWithStats" where
  "deviceWithStats answer device =
     (let sessionData = rdata answer;
          sessionCount = (case sessionData of None \<Rightarrow> 0 | Some rows \<Rightarrow> length rows);
          totalFlightTime =
            (case sessionData of None \<Rightarrow> 0 | Some rows \<Rightarrow> foldl (\<lambda>sum r. sum + r) 0 rows)
      in Device.extend device
           (DeviceWithStats.fields sessionCount totalFlightTime))"

text \<open>
  \<open>fetchPlaneData\<close>: the signed-in user, then the answers to the plane query, the devices
  query, the per-device session queries (by device token) and the sessions query. A
  \<open>throw\<close> lands in the \<open>catch\<close>, which stores the message; \<open>finally\<close> clears \<open>loading\<close> on
  every path.
\<close>

definition fetchPlaneData ::
  "string option \<Rightarrow> Plane response \<Rightarrow> Device list response \<Rightarrow>
   (string \<Rightarrow> int list response) \<Rightarrow> Session list response \<Rightarrow>
   PlaneDetailState \<Rightarrow> PlaneDetailState" where
  "fetchPlaneData user planeAnswer devicesAnswer sessionDataAnswer sessionsAnswer st =
     (case user of
        None \<Rightarrow> st\<lparr>pd_loading := False\<rparr>
      | Some u \<Rightarrow>
        (case rerror planeAnswer of
           Some msg \<Rightarrow> st\<lparr>pd_error := Some msg, pd_loading := False\<rparr>
         | None \<Rightarrow>
           (case rdata planeAnswer of
              None \<Rightarrow> st\<lparr>pd_error := Some ''Plane not found'', pd_loading := False\<rparr>
            | Some planeData \<Rightarrow>
              (let st1 = st\<lparr>pd_plane := Some planeData\<rparr>
               in case rerror devicesAnswer of
                    Some msg \<Rightarrow> st1\<lparr>pd_error := Some msg, pd_loading := False\<rparr>
                  | None \<Rightarrow>
                    (let devicesData = (case rdata devicesAnswer of None \<Rightarrow> [] | Some ds \<Rightarrow> ds);
                         devicesWithStats =
                           map (\<lambda>device. deviceWithStats (sessionDataAnswer (device_uuid device)) device)
                             devicesData;
                         st2 = st1\<lparr>pd_devices := devicesWithStats\<rparr>;
                         deviceUuids = map device_uuid devicesData
                     in if length deviceUuids > 0
                        then (case rerror sessionsAnswer of
                                Some msg \<Rightarrow> st2\<lparr>pd_error := Some msg, pd_loading := False\<rparr>
                              | None \<Rightarrow>
                                (let allSessions =
                                       (case rdata sessionsAnswer of None \<Rightarrow> [] | Some ss \<Rightarrow> ss)
                                 in st2\<lparr>pd_stats := sessionStats allSessions,
                                        pd_recentSessions := take 10 allSessions,
                                        pd_loading := False\<rparr>))
                        else st2\<lparr>pd_loading := False\<rparr>)))))"

section \<open>Session view (SessionView.tsx)\<close>

record SessionWithDevice = Session +
  device :: "Device option"

text \<open>\<open>a || b\<close> on a possibly absent string: the empty string counts as absent.\<close>

definition str_or :: "string option \<Rightarrow> string \<Rightarrow> string" where
  "str_or a b = (case a of None \<Rightarrow> b | Some s \<Rightarrow> if s = [] then b else s)"

text \<open>\<open>a || 0\<close> on a number.\<close>

definition num_or0 :: "int \<Rightarrow> int" where
  "num_or0 a = (if a = 0 then 0 else a)"

definition filteredSessions ::
  "string \<Rightarrow> string \<Rightarrow> SessionWithDevice list \<Rightarrow> SessionWithDevice list" where
  "filteredSessions filterDevice filterStatus sessions =
     filter (\<lambda>session.
        if filterDevice \<noteq> [] \<and> session_device_uuid session \<noteq> filterDevice then False
        else if filterStatus \<noteq> [] \<and> status_str (status session) \<noteq> filterStatus then False
        else True) sessions"


text \<open>The three stat cards of the view: count, total hours, active sessions.\<close>

definition totalSessionsCard :: "string \<Rightarrow> string \<Rightarrow> SessionWithDevice list \<Rightarrow> nat" where
  "totalSessionsCard filterDevice filterStatus sessions =
     length (filteredSessions filterDevice filterStatus sessions)"


definition activeSessionsCard :: "string \<Rightarrow> string \<Rightarrow> SessionWithDevice list \<Rightarrow> nat" where
  "activeSessionsCard filterDevice filterStatus sessions =
     length (filter (\<lambda>s. status s = Open) (filteredSessions filterDevice filterStatus sessions))"

text \<open>
  The summary by plane below the table: one entry for every device that has a plane,
  with the hours of its filtered sessions to one decimal and the letter \<open>h\<close>; an entry of
  zero hours is not rendered (\<open>None\<close>), and the block is only there when the filter
  leaves a session.
\<close>

definition planeSummaryHours ::
  "string \<Rightarrow> string \<Rightarrow> SessionWithDevice list \<Rightarrow> Device \<Rightarrow> rat" where
  "planeSummaryHours filterDevice filterStatus sessions dev =
     (let deviceSessions =
            filter (\<lambda>s. session_device_uuid s = device_uuid dev)
              (filteredSessions filterDevice filterStatus sessions);
          totalSeconds = foldl (\<lambda>sum s. sum + num_or0 (run_seconds s)) 0 deviceSessions
      in js_div (of_int totalSeconds) 3600)"

definition planeSummaryRow ::
  "string \<Rightarrow> string \<Rightarrow> SessionWithDevice list \<Rightarrow> Device \<Rightarrow> string option" where
  "planeSummaryRow filterDevice filterStatus sessions dev =
     (let hours = planeSummaryHours filterDevice filterStatus sessions dev
      in if hours = 0 then None else map_option (\<lambda>t. t @ ''h'') (toFixed 1 hours))"

definition planeSummary ::
  "string \<Rightarrow> string \<Rightarrow> SessionWithDevice list \<Rightarrow> Device list \<Rightarrow> string option list" where
  "planeSummary filterDevice filterStatus sessions devs =
     (if 0 < length (filteredSessions filterDevice filterStatus sessions)
      then map (planeSummaryRow filterDevice filterStatus sessions)
             (filter (\<lambda>d. plane d \<noteq> None) devs)
      else [])"

text \<open>
  \<open>exportToCSV\<close>, up to the text handed to the download: \<open>headers\<close>, one array of six
  cells per filtered session, the lines, and the lines joined by a line feed.
\<close>

definition headers :: "string list" where
  "headers = [''Session Start'', ''Device'', ''Plane'', ''Duration'', ''Status'', ''Last Update'']"

definition csvRow :: "SessionWithDevice \<Rightarrow> string list" where
  "csvRow session =
     [session_start session,
      str_or (Option.bind (device session) name) (session_device_uuid session),
      str_or (map_option tail_number (Option.bind (device session) plane)) ''N/A'',
      formatDuration (run_seconds session),
      status_str (status session),
      str_or (last_update session) ''N/A'']"

definition csvLines :: "string \<Rightarrow> string \<Rightarrow> SessionWithDevice list \<Rightarrow> string list" where
  "csvLines filterDevice filterStatus sessions =
     (let rows = map csvRow (filteredSessions filterDevice filterStatus sessions)
      in join '','' headers #
         map (\<lambda>row. join '','' (map (\<lambda>cell. [CHR 0x22] @ cell @ [CHR 0x22]) row)) rows)"

definition exportToCSV :: "string \<Rightarrow> string \<Rightarrow> SessionWithDevice list \<Rightarrow> string" where
  "exportToCSV filterDevice filterStatus sessions =
     join [CHR 0x0A] (csvLines filterDevice filterStatus sessions)"

text \<open>
  A reader for the exported text, to state what reading the file back gives. It is not
  part of the repository: fields are separated by commas and rows by line feeds, a field
  that starts with a double quote runs to the closing one, and a doubled quote inside it
  stands for one quote character.
\<close>

datatype reader_state = FieldStart | InPlain | InQuoted | AfterQuote

fun readCSV_from ::
  "reader_state \<Rightarrow> string \<Rightarrow> string list \<Rightarrow> string list list \<Rightarrow> string \<Rightarrow> string list list" where
  "readCSV_from st fld row rows [] = rev (rev (rev fld # row) # rows)"
| "readCSV_from st fld row rows (c # cs) =
     (if st = InQuoted then
        (if c = CHR 0x22 then readCSV_from AfterQuote fld row rows cs
         else readCSV_from InQuoted (c # fld) row rows cs)
      else if c = CHR 0x22 \<and> st = FieldStart then readCSV_from InQuoted fld row rows cs
      else if c = CHR 0x22 \<and> st = AfterQuote then readCSV_from InQuoted (c # fld) row rows cs
      else if c = CHR '','' then readCSV_from FieldStart [] (rev fld # row) rows cs
      else if c = CHR 0x0A then readCSV_from FieldStart [] [] (rev (rev fld # row) # rows) cs
      else readCSV_from InPlain (c # fld) row rows cs)"

definition readCSV :: "string \<Rightarrow> string list list" where
  "readCSV text = readCSV_from FieldStart [] [] [] text"

text \<open>The fourth column (Duration) of every row after the header.\<close>

definition durationColumn :: "string list list \<Rightarrow> string option list" where
  "durationColumn rows = map (\<lambda>row. if 3 < length row then Some (row ! 3) else None) (drop 1 rows)"

text \<open>Splitting a text at a separator, and the test that a field is wrapped in quotes.\<close>

fun split_on :: "char \<Rightarrow> string \<Rightarrow> string list" where
  "split_on c [] = [[]]"
| "split_on c (x # xs) =
     (if x = c then [] # split_on c xs
      else (case split_on c xs of [] \<Rightarrow> [[x]] | f # fs \<Rightarrow> (x # f) # fs))"

definition is_quoted :: "string \<Rightarrow> bool" where
  "is_quoted f = (2 \<le> length f \<and> hd f = CHR 0x22 \<and> last f = CHR 0x22)"

section \<open>Dashboard (Dashboard.tsx)\<close>

text \<open>
  The total of the dashboard: the seconds of all sessions of the user's devices (zero
  when the query brought no data), and from them the number the card is given,
  \<open>Math.round(totalSeconds / 3600 * 10) / 10\<close>. The card prints that number as it is.
\<close>

definition dashboardTotalSeconds :: "int list option \<Rightarrow> int" where
  "dashboardTotalSeconds allSessions =
     (case allSessions of
        None \<Rightarrow> 0
      | Some rows \<Rightarrow> num_or0 (foldl (\<lambda>sum r. sum + num_or0 r) 0 rows))"


section \<open>The store behind the gateway\<close>

text \<open>
  The tables the handlers write to. A write is atomic: the gateway either applies it or
  answers with an error and changes nothing. Which of the two happens is an input
  (\<open>writeError\<close>); nothing else in the source decides it.
\<close>

record DB =
  db_devices :: "Device list"
  db_planes :: "Plane list"
  db_sessions :: "Session list"

text \<open>\<open>s || null\<close> on a form field.\<close>

definition or_null :: "string \<Rightarrow> string option" where
  "or_null s = (if s = [] then None else Some s)"

section \<open>Device list (DeviceList.tsx)\<close>

record DeviceListState =
  dl_devices :: "Device list"
  dl_planes :: "Plane list"
  dl_loading :: bool
  showEditModal :: bool
  selectedDevice :: "Device option"
  formData_name :: string
  formData_plane_id :: string
  dl_error :: "string option"

definition fetchData ::
  "string option \<Rightarrow> Device list response \<Rightarrow> Plane list response \<Rightarrow>
   DeviceListState \<Rightarrow> DeviceListState" where
  "fetchData user devicesAnswer planesAnswer st =
     (case user of
        None \<Rightarrow> st\<lparr>dl_loading := False\<rparr>
      | Some u \<Rightarrow>
        (case rerror devicesAnswer of
           Some msg \<Rightarrow> st\<lparr>dl_error := Some msg, dl_loading := False\<rparr>
         | None \<Rightarrow>
           (case rerror planesAnswer of
              Some msg \<Rightarrow> st\<lparr>dl_error := Some msg, dl_loading := False\<rparr>
            | None \<Rightarrow>
              st\<lparr>dl_devices := (case rdata devicesAnswer of None \<Rightarrow> [] | Some ds \<Rightarrow> ds),
                 dl_planes := (case rdata planesAnswer of None \<Rightarrow> [] | Some ps \<Rightarrow> ps),
                 dl_loading := False\<rparr>)))"

text \<open>
  \<open>handleUpdateDevice\<close>: the update of \<open>name\<close> and \<open>plane_id\<close> on the rows whose token is
  the selected device's, then the form reset and the reload.
\<close>

definition handleUpdateDevice ::
  "string option \<Rightarrow> string option \<Rightarrow> Device list response \<Rightarrow> Plane list response \<Rightarrow>
   DeviceListState \<times> DB \<Rightarrow> DeviceListState \<times> DB" where
  "handleUpdateDevice writeError user devicesAnswer planesAnswer s =
     (let st = (fst s)\<lparr>dl_error := None\<rparr>; db = snd s
      in case selectedDevice st of
           None \<Rightarrow> (st, db)
         | Some sel \<Rightarrow>
           (case writeError of
              Some msg \<Rightarrow> (st\<lparr>dl_error := Some msg\<rparr>, db)
            | None \<Rightarrow>
              (let db' = db\<lparr>db_devices :=
                               map (\<lambda>d. if device_uuid d = device_uuid sel
                                         then d\<lparr>name := or_null (formData_name st),
                                                plane_id := or_null (formData_plane_id st)\<rparr>
                                         else d) (db_devices db)\<rparr>;
                   st' = st\<lparr>formData_name := [], formData_plane_id := [],
                             showEditModal := False, selectedDevice := None\<rparr>
               in (fetchData user devicesAnswer planesAnswer st', db'))))"

text \<open>\<open>handleDeleteDevice\<close>: \<open>confirmed\<close> is the answer to the confirmation dialog.\<close>

definition handleDeleteDevice ::
  "bool \<Rightarrow> string option \<Rightarrow> string option \<Rightarrow> Device list response \<Rightarrow> Plane list response \<Rightarrow>
   string \<Rightarrow> DeviceListState \<times> DB \<Rightarrow> DeviceListState \<times> DB" where
  "handleDeleteDevice confirmed writeError user devicesAnswer planesAnswer deviceUuid s =
     (let st = fst s; db = snd s
      in if \<not> confirmed then (st, db)
         else (case writeError of
                 Some msg \<Rightarrow> (st\<lparr>dl_error := Some msg\<rparr>, db)
               | None \<Rightarrow>
                 (fetchData user devicesAnswer planesAnswer st,
                  db\<lparr>db_devices := filter (\<lambda>d. device_uuid d \<noteq> deviceUuid) (db_devices db)\<rparr>)))"

section \<open>Admin view (Admin.tsx)\<close>

record DeviceWithOwner = Device +
  owner_email :: "string option"

record AdminState =
  ad_selectedDevice :: "DeviceWithOwner option"
  assign_user_id :: string
  assign_name :: string
  showAssignModal :: bool
  emailInput :: string
  showEmailSuggestions :: bool
  ad_error :: "string option"

text \<open>
  \<open>handleAssignDevice\<close>: the update of \<open>user_id\<close> and \<open>name\<close> on the rows whose token is the
  selected device's. The reload \<open>checkAdminAndFetchData\<close> reads the gateway, writes only
  to the view and catches its own errors; it is the parameter \<open>reload\<close>.
\<close>

definition handleAssignDevice ::
  "string option \<Rightarrow> (AdminState \<Rightarrow> AdminState) \<Rightarrow> AdminState \<times> DB \<Rightarrow> AdminState \<times> DB" where
  "handleAssignDevice writeError reload s =
     (let st = (fst s)\<lparr>ad_error := None\<rparr>; db = snd s
      in case ad_selectedDevice st of
           None \<Rightarrow> (st, db)
         | Some sel \<Rightarrow>
           (case writeError of
              Some msg \<Rightarrow> (st\<lparr>ad_error := Some msg\<rparr>, db)
            | None \<Rightarrow>
              (let db' = db\<lparr>db_devices :=
                               map (\<lambda>d. if device_uuid d = device_uuid sel
                                         then d\<lparr>user_id := or_null (assign_user_id st),
                                                name := or_null (assign_name st)\<rparr>
                                         else d) (db_devices db)\<rparr>;
                   st' = st\<lparr>showAssignModal := False, ad_selectedDevice := None,
                             assign_user_id := [], assign_name := [],
                             emailInput := [], showEmailSuggestions := False\<rparr>
               in (reload st', db'))))"

text \<open>The data-model invariant: a plane reference only on a device that has an owner.\<close>

definition owner_before_plane :: "Device \<Rightarrow> bool" where
  "owner_before_plane d = (plane_id d = None \<or> user_id d \<noteq> None)"

text \<open>A device row and a plane row with the given keys and blank other columns.\<close>

definition mkDevice :: "string \<Rightarrow> string option \<Rightarrow> string option \<Rightarrow> string option \<Rightarrow> Device" where
  "mkDevice uuid owner pl nm =
     \<lparr>device_uuid = uuid, user_id = owner, plane_id = pl, name = nm,
      created_at = [], updated_at = [], last_seen = None, plane = None\<rparr>"

definition mkPlane :: "string \<Rightarrow> string \<Rightarrow> string \<Rightarrow> Plane" where
  "mkPlane ident owner tail =
     \<lparr>plane_ident = ident, plane_user_id = owner, tail_number = tail, plane_model = None,
      manufacturer = None, plane_created_at = [], plane_updated_at = []\<rparr>"

definition mkSessionWithDevice ::
  "string \<Rightarrow> status \<Rightarrow> int \<Rightarrow> Device option \<Rightarrow> SessionWithDevice" where
  "mkSessionWithDevice uuid st secs d =
     Session.extend ((mkSession st secs)\<lparr>session_device_uuid := uuid\<rparr>)
       (SessionWithDevice.fields d)"

text \<open>The sum of \<open>run_seconds\<close> over the closed sessions, to compare the total against.\<close>

definition closedFlightTime :: "Session list \<Rightarrow> int" where
  "closedFlightTime ss = sum_list (map run_seconds (filter (\<lambda>s. status s = Closed) ss))"


text \<open>The state of the plane detail view before the first load (the \<open>useState\<close> defaults).\<close>

definition initialPlaneDetailState :: PlaneDetailState where
  "initialPlaneDetailState =
     \<lparr>pd_plane = None, pd_devices = [], pd_recentSessions = [],
      pd_stats = \<lparr>totalSessions = 0, totalFlightTime = 0, activeSessions = 0,
                  averageFlightTime = 0, longestFlight = 0, shortestFlight = 0\<rparr>,
      pd_loading = True, pd_error = None\<rparr>"

text \<open>
  The admin view with the assign dialog open on a device, and the device list with the
  edit dialog open on a device, each with the form filled in.
\<close>

definition assignDialog :: "Device \<Rightarrow> string \<Rightarrow> string \<Rightarrow> AdminState" where
  "assignDialog d uid nm =
     \<lparr>ad_selectedDevice = Some (Device.extend d (DeviceWithOwner.fields None)),
      assign_user_id = uid, assign_name = nm, showAssignModal = True,
      emailInput = [], showEmailSuggestions = False, ad_error = None\<rparr>"

definition editDialog :: "Device \<Rightarrow> string \<Rightarrow> string \<Rightarrow> DeviceListState" where
  "editDialog d nm pid =
     \<lparr>dl_devices = [d], dl_planes = [], dl_loading = False, showEditModal = True,
      selectedDevice = Some d, formData_name = nm, formData_plane_id = pid, dl_error = None\<rparr>"

section \<open>Facts about the runtime functions\<close>

lemma foldl_plus_sum_list:
  "foldl (\<lambda>sum s. sum + f s) a xs = a + sum_list (map f xs)" for a :: int
  by (induction xs arbitrary: a) simp_all

lemma foldl_plain_sum_list: "foldl (\<lambda>a b. a + b) a xs = a + sum_list xs" for a :: int
  by (induction xs arbitrary: a) simp_all

lemma Math_round_floor_quot:
  assumes "0 < n"
  shows "Math_round (of_int a / of_nat n) = (2 * a + int n) div (2 * int n)"
proof -
  have "(of_int a / of_nat n + 1 / 2 :: rat) = of_int (2 * a + int n) / of_int (2 * int n)"
    using assms by (simp add: field_simps)
  then show ?thesis
    unfolding Math_round_def by (simp only: floor_divide_of_int_eq)
qed

lemma Math_round_nearest: "\<bar>of_int (Math_round x) - x\<bar> \<le> 1 / 2"
  unfolding Math_round_def by linarith












section \<open>Session aggregation\<close>

lemma totalSessions_eq: "totalSessions (sessionStats ss) = length ss"
  by (simp add: sessionStats_def Let_def split: list.split)

lemma totalFlightTime_eq: "totalFlightTime (sessionStats ss) = sum_list (map run_seconds ss)"
  by (simp add: sessionStats_def Let_def foldl_plus_sum_list split: list.split)

lemma activeSessions_eq:
  "activeSessions (sessionStats ss) = length (filter (\<lambda>s. status s = Open) ss)"
  by (simp add: sessionStats_def Let_def split: list.split)

lemma averageFlightTime_eq:
  assumes "filter (\<lambda>s. status s = Closed) ss \<noteq> []"
  shows "averageFlightTime (sessionStats ss) =
           Math_round (of_int (closedFlightTime ss)
                       / of_nat (length (filter (\<lambda>s. status s = Closed) ss)))"
proof -
  obtain t ts where ts: "map run_seconds (filter (\<lambda>s. status s = Closed) ss) = t # ts"
    using assms by (cases "map run_seconds (filter (\<lambda>s. status s = Closed) ss)") auto
  have len: "length (filter (\<lambda>s. status s = Closed) ss) = Suc (length ts)"
    using arg_cong [OF ts, of length] by simp
  have sm: "closedFlightTime ss = t + sum_list ts"
    unfolding closedFlightTime_def ts by simp
  show ?thesis
    by (simp add: sessionStats_def Let_def ts len sm foldl_plain_sum_list)
qed

lemma no_closed_stats:
  assumes "filter (\<lambda>s. status s = Closed) ss = []"
  shows "averageFlightTime (sessionStats ss) = 0" "longestFlight (sessionStats ss) = 0"
    "shortestFlight (sessionStats ss) = 0"
  using assms by (simp_all add: sessionStats_def Let_def)

lemma sum_list_split_status:
  "sum_list (map run_seconds ss)
     = closedFlightTime ss + sum_list (map run_seconds (filter (\<lambda>s. status s = Open) ss))"
proof (induction ss)
  case Nil
  show ?case by (simp add: closedFlightTime_def)
next
  case (Cons s ss)
  then show ?case by (cases "status s") (simp_all add: closedFlightTime_def)
qed

lemma open_durations_zero_iff:
  "(\<forall>x\<in>set (map run_seconds (filter (\<lambda>s. status s = Open) ss)). x = 0)
     \<longleftrightarrow> (\<forall>s\<in>set ss. status s = Open \<longrightarrow> run_seconds s = 0)"
  by (induction ss) simp_all

text \<open>
  C1: the sessions closed 3600 s, closed 7200 s, open 1800 s give 3 sessions, 12600 s in
  total, 1 active session, an average of 5400 s, a longest flight of 7200 s and a shortest
  of 3600 s. In general the count is that of all sessions, the total sums \<open>run_seconds\<close>
  over all sessions, open ones included, the active count is that of the open sessions,
  and the average is the mean of the closed durations rounded to the nearest whole second
  (it is \<open>\<lfloor>mean + 1/2\<rfloor>\<close>, at most half a second from the mean).
\<close>

theorem sessionStats_rules:
  "sessionStats [a\<lparr>status := Closed, run_seconds := 3600\<rparr>,
                 b\<lparr>status := Closed, run_seconds := 7200\<rparr>,
                 c\<lparr>status := Open, run_seconds := 1800\<rparr>]
     = \<lparr>totalSessions = 3, totalFlightTime = 12600, activeSessions = 1,
        averageFlightTime = 5400, longestFlight = 7200, shortestFlight = 3600\<rparr>
   \<and> totalSessions (sessionStats ss) = length ss
   \<and> totalFlightTime (sessionStats ss) = sum_list (map run_seconds ss)
   \<and> activeSessions (sessionStats ss) = length (filter (\<lambda>s. status s = Open) ss)
   \<and> (filter (\<lambda>s. status s = Closed) ss \<noteq> [] \<longrightarrow>
        averageFlightTime (sessionStats ss)
          = \<lfloor>of_int (closedFlightTime ss)
               / of_nat (length (filter (\<lambda>s. status s = Closed) ss)) + (1 / 2 :: rat)\<rfloor>
        \<and> \<bar>of_int (averageFlightTime (sessionStats ss))
             - of_int (closedFlightTime ss)
               / of_nat (length (filter (\<lambda>s. status s = Closed) ss))\<bar> \<le> (1 / 2 :: rat))"
proof -
  have ex: "sessionStats [a\<lparr>status := Closed, run_seconds := 3600\<rparr>,
                 b\<lparr>status := Closed, run_seconds := 7200\<rparr>,
                 c\<lparr>status := Open, run_seconds := 1800\<rparr>]
     = \<lparr>totalSessions = 3, totalFlightTime = 12600, activeSessions = 1,
        averageFlightTime = 5400, longestFlight = 7200, shortestFlight = 3600\<rparr>"
    using Math_round_floor_quot [of 2 10800] by (simp add: sessionStats_def)
  have avg: "averageFlightTime (sessionStats ss)
          = \<lfloor>of_int (closedFlightTime ss)
               / of_nat (length (filter (\<lambda>s. status s = Closed) ss)) + (1 / 2 :: rat)\<rfloor>
        \<and> \<bar>of_int (averageFlightTime (sessionStats ss))
             - of_int (closedFlightTime ss)
               / of_nat (length (filter (\<lambda>s. status s = Closed) ss))\<bar> \<le> (1 / 2 :: rat)"
    if "filter (\<lambda>s. status s = Closed) ss \<noteq> []"
    using averageFlightTime_eq [OF that] Math_round_nearest
    by (simp add: Math_round_def)
  show ?thesis
    using ex avg totalSessions_eq totalFlightTime_eq activeSessions_eq by blast
qed

theorem sessionStats_rules_witness:
  "filter (\<lambda>s. status s = Closed) [mkSession Closed 3600, mkSession Closed 7200, mkSession Open 1800] \<noteq> []
   \<and> averageFlightTime (sessionStats [mkSession Closed 3600, mkSession Closed 7200, mkSession Open 1800]) = 5400
   \<and> totalFlightTime (sessionStats [mkSession Closed 3600, mkSession Closed 7200, mkSession Open 1800]) = 12600"
  using sessionStats_rules [of "mkSession Closed 0" "mkSession Closed 0" "mkSession Open 0"
      "[mkSession Closed 3600, mkSession Closed 7200, mkSession Open 1800]"]
  by (simp add: mkSession_def closedFlightTime_def)

text \<open>
  C2, as the code has it: when no duration is negative, the total is at least the sum of
  the closed durations, and the two are equal exactly when every open session has a
  duration of zero; in particular they are equal when no session is open.
\<close>

theorem totalFlightTime_vs_closed:
  assumes "\<forall>s\<in>set ss. 0 \<le> run_seconds s"
  shows "closedFlightTime ss \<le> totalFlightTime (sessionStats ss)
     \<and> (totalFlightTime (sessionStats ss) = closedFlightTime ss
          \<longleftrightarrow> (\<forall>s\<in>set ss. status s = Open \<longrightarrow> run_seconds s = 0))
     \<and> ((\<forall>s\<in>set ss. status s \<noteq> Open) \<longrightarrow>
          totalFlightTime (sessionStats ss) = closedFlightTime ss)"
proof -
  define opens where "opens = map run_seconds (filter (\<lambda>s. status s = Open) ss)"
  have nonneg: "\<forall>x\<in>set opens. 0 \<le> x"
    using assms unfolding opens_def by (induction ss) simp_all
  have total: "totalFlightTime (sessionStats ss) = closedFlightTime ss + sum_list opens"
    unfolding opens_def totalFlightTime_eq by (rule sum_list_split_status)
  have ge: "0 \<le> sum_list opens"
    using nonneg by (simp add: sum_list_nonneg)
  have zero: "sum_list opens = 0 \<longleftrightarrow> (\<forall>x\<in>set opens. x = 0)"
    using nonneg by (simp add: sum_list_nonneg_eq_0_iff)
  have eq_iff: "totalFlightTime (sessionStats ss) = closedFlightTime ss \<longleftrightarrow> sum_list opens = 0"
    using total by linarith
  have iff: "totalFlightTime (sessionStats ss) = closedFlightTime ss
          \<longleftrightarrow> (\<forall>s\<in>set ss. status s = Open \<longrightarrow> run_seconds s = 0)"
  proof -
    have "totalFlightTime (sessionStats ss) = closedFlightTime ss \<longleftrightarrow> sum_list opens = 0"
      by (rule eq_iff)
    also have "\<dots> \<longleftrightarrow> (\<forall>x\<in>set opens. x = 0)"
      by (rule zero)
    also have "\<dots> \<longleftrightarrow> (\<forall>s\<in>set ss. status s = Open \<longrightarrow> run_seconds s = 0)"
      unfolding opens_def by (rule open_durations_zero_iff)
    finally show ?thesis .
  qed
  have le: "closedFlightTime ss \<le> totalFlightTime (sessionStats ss)"
    using total ge by linarith
  have none: "totalFlightTime (sessionStats ss) = closedFlightTime ss"
    if "\<forall>s\<in>set ss. status s \<noteq> Open"
    using that iff by blast
  show ?thesis
    using le iff none by blast
qed

theorem totalFlightTime_vs_closed_witness:
  "0 \<le> run_seconds (mkSession Closed 3600) \<and> 0 \<le> run_seconds (mkSession Open 1800)
   \<and> closedFlightTime [mkSession Closed 3600, mkSession Open 1800]
       < totalFlightTime (sessionStats [mkSession Closed 3600, mkSession Open 1800])"
  using totalFlightTime_vs_closed [of "[mkSession Closed 3600, mkSession Open 1800]"]
  by (simp add: mkSession_def closedFlightTime_def)

text \<open>
  C2 as stated fails: one open session that has not accumulated any time yet leaves the
  total equal to the closed sum although a session is open.
\<close>

theorem totalFlightTime_equality_counterexample:
  "\<not> (totalFlightTime (sessionStats [mkSession Open 0]) = closedFlightTime [mkSession Open 0]
        \<longleftrightarrow> (\<forall>s\<in>set [mkSession Open 0]. status s \<noteq> Open))"
  by (simp add: sessionStats_def closedFlightTime_def mkSession_def)

text \<open>
  C3, as the code has it: without a closed session the aggregation divides nothing and
  stores 0 for the average, the longest and the shortest flight; the view then shows
  \<open>N/A\<close> on the average card and leaves out the row with the longest and the shortest
  flight altogether.
\<close>

theorem no_closed_sessions_display:
  assumes "filter (\<lambda>s. status s = Closed) ss = []"
  shows "averageFlightTime (sessionStats ss) = 0
     \<and> longestFlight (sessionStats ss) = 0
     \<and> shortestFlight (sessionStats ss) = 0
     \<and> averageCard (sessionStats ss) = \<lparr>card_duration = ''N/A'', card_hobbs = None\<rparr>
     \<and> additionalStatsRow (sessionStats ss) = None"
  using no_closed_stats [OF assms] by (simp add: averageCard_def additionalStatsRow_def)

theorem no_closed_sessions_display_witness:
  "filter (\<lambda>s. status s = Closed) [mkSession Open 1800] = []
   \<and> card_duration (averageCard (sessionStats [mkSession Open 1800])) = ''N/A''
   \<and> additionalStatsRow (sessionStats [mkSession Open 1800]) = None"
  using no_closed_sessions_display [of "[mkSession Open 1800]"]
  by (simp add: mkSession_def)

text \<open>
  C3 as stated fails: without a closed session the longest and the shortest flight are
  not shown with a \<open>N/A\<close> marker; nothing is shown for them.
\<close>

theorem longest_marker_counterexample:
  "filter (\<lambda>s. status s = Closed) [mkSession Open 1800] = []
   \<and> map_option (\<lambda>row. card_duration (fst row)) (additionalStatsRow (sessionStats [mkSession Open 1800]))
       \<noteq> Some ''N/A''
   \<and> map_option (\<lambda>row. card_duration (snd row)) (additionalStatsRow (sessionStats [mkSession Open 1800]))
       \<noteq> Some ''N/A''"
  by (simp add: sessionStats_def additionalStatsRow_def mkSession_def)

section \<open>Decimal hours\<close>

subsection \<open>Rounding to a double\<close>


lemma round_half_even_nonneg: "0 \<le> x \<Longrightarrow> 0 \<le> round_half_even x"
  unfolding round_half_even_def Let_def by auto

lemma pow2_int_pos: "(0::rat) < 2 powi k"
  by simp







subsection \<open>Hours at one and two decimal places\<close>























section \<open>Per-device statistics in the plane detail view\<close>

lemma deviceWithStats_no_data:
  "rdata answer = None \<Longrightarrow>
     sessionCount (deviceWithStats answer d) = 0 \<and> deviceTotalFlightTime (deviceWithStats answer d) = 0"
  by (simp add: deviceWithStats_def Let_def Device.defs DeviceWithStats.defs)

lemma deviceWithStats_uuid: "device_uuid (deviceWithStats answer d) = device_uuid d"
  by (simp add: deviceWithStats_def Let_def Device.defs DeviceWithStats.defs)

lemma fetchPlaneData_error_frame:
  "pd_error (fetchPlaneData user pa da f sa st) = pd_error (fetchPlaneData user pa da g sa st)"
  by (simp add: fetchPlaneData_def Let_def split: option.split)

lemma fetchPlaneData_devices:
  assumes "user = Some u" "rerror pa = None" "rdata pa = Some p"
    "rerror da = None" "rdata da = Some ds"
  shows "pd_devices (fetchPlaneData user pa da f sa st)
           = map (\<lambda>d. deviceWithStats (f (device_uuid d)) d) ds"
  using assms by (simp add: fetchPlaneData_def Let_def split: option.split)

text \<open>
  C9, as the code has it: the answers to the per-device session queries never reach the
  error state of the view (it is the same whatever they are), so a failed query is not
  reported. When the plane and the devices queries succeed, every device of the answer is
  listed, and a device whose session query brought no data is listed with a session count
  and a total flight time of zero.
\<close>

theorem stat_fetch_failure_defaults_unreported:
  "pd_error (fetchPlaneData user pa da f sa st) = pd_error (fetchPlaneData user pa da g sa st)
   \<and> (user = Some u \<and> rerror pa = None \<and> rdata pa = Some p
        \<and> rerror da = None \<and> rdata da = Some ds \<longrightarrow>
        length (pd_devices (fetchPlaneData user pa da f sa st)) = length ds
        \<and> map device_uuid (pd_devices (fetchPlaneData user pa da f sa st)) = map device_uuid ds
        \<and> (\<forall>dws\<in>set (pd_devices (fetchPlaneData user pa da f sa st)).
              rdata (f (device_uuid dws)) = None \<longrightarrow>
              sessionCount dws = 0 \<and> deviceTotalFlightTime dws = 0))"
proof (intro conjI impI)
  show "pd_error (fetchPlaneData user pa da f sa st) = pd_error (fetchPlaneData user pa da g sa st)"
    by (rule fetchPlaneData_error_frame)
next
  assume h: "user = Some u \<and> rerror pa = None \<and> rdata pa = Some p
        \<and> rerror da = None \<and> rdata da = Some ds"
  then have devs: "pd_devices (fetchPlaneData user pa da f sa st)
           = map (\<lambda>d. deviceWithStats (f (device_uuid d)) d) ds"
    by (intro fetchPlaneData_devices [where u = u and p = p]) simp_all
  show "length (pd_devices (fetchPlaneData user pa da f sa st)) = length ds"
    by (simp add: devs)
  show "map device_uuid (pd_devices (fetchPlaneData user pa da f sa st)) = map device_uuid ds"
    by (simp add: devs deviceWithStats_uuid)
  show "\<forall>dws\<in>set (pd_devices (fetchPlaneData user pa da f sa st)).
              rdata (f (device_uuid dws)) = None \<longrightarrow>
              sessionCount dws = 0 \<and> deviceTotalFlightTime dws = 0"
    unfolding devs using deviceWithStats_no_data by (auto simp: deviceWithStats_uuid)
qed

theorem stat_fetch_failure_defaults_unreported_witness:
  "pd_error (fetchPlaneData (Some ''u1'') (Response (Some (mkPlane ''p1'' ''u1'' ''N1'')) None)
       (Response (Some [mkDevice ''d1'' (Some ''u1'') (Some ''p1'') None]) None)
       (\<lambda>uuid. Response None (Some ''timeout''))
       (Response (Some [mkSession Closed 3600]) None) initialPlaneDetailState) = None
   \<and> map sessionCount (pd_devices (fetchPlaneData (Some ''u1'') (Response (Some (mkPlane ''p1'' ''u1'' ''N1'')) None)
       (Response (Some [mkDevice ''d1'' (Some ''u1'') (Some ''p1'') None]) None)
       (\<lambda>uuid. Response None (Some ''timeout''))
       (Response (Some [mkSession Closed 3600]) None) initialPlaneDetailState)) = [0]"
  using stat_fetch_failure_defaults_unreported
    [of "Some ''u1''" "Response (Some (mkPlane ''p1'' ''u1'' ''N1'')) None"
        "Response (Some [mkDevice ''d1'' (Some ''u1'') (Some ''p1'') None]) None"
        "\<lambda>uuid. Response None (Some ''timeout'')"
        "Response (Some [mkSession Closed 3600]) None" initialPlaneDetailState
        "\<lambda>uuid. Response (Some []) None" "''u1''" "mkPlane ''p1'' ''u1'' ''N1''"
        "[mkDevice ''d1'' (Some ''u1'') (Some ''p1'') None]"]
  by (simp add: fetchPlaneData_def initialPlaneDetailState_def deviceWithStats_def Let_def
      Device.defs DeviceWithStats.defs mkDevice_def)

text \<open>
  C9 as stated fails: the session query of the one device fails with the error
  \<open>timeout\<close>, and the view ends with no error to show.
\<close>

theorem stat_fetch_failure_counterexample:
  "rerror ((\<lambda>uuid. Response None (Some ''timeout'')) ''d1'' :: int list response) = Some ''timeout''
   \<and> pd_error (fetchPlaneData (Some ''u1'') (Response (Some (mkPlane ''p1'' ''u1'' ''N1'')) None)
       (Response (Some [mkDevice ''d1'' (Some ''u1'') (Some ''p1'') None]) None)
       (\<lambda>uuid. Response None (Some ''timeout''))
       (Response (Some [mkSession Closed 3600]) None) initialPlaneDetailState) = None"
  by (simp add: fetchPlaneData_def initialPlaneDetailState_def Let_def)

section \<open>Writes to the devices table\<close>

lemma handleAssignDevice_devices:
  "db_devices (snd (handleAssignDevice w reload (st, db)))
     = (case (ad_selectedDevice st, w) of
          (Some sel, None) \<Rightarrow>
            map (\<lambda>d. if device_uuid d = device_uuid sel
                      then d\<lparr>user_id := or_null (assign_user_id st), name := or_null (assign_name st)\<rparr>
                      else d) (db_devices db)
        | _ \<Rightarrow> db_devices db)"
  by (simp add: handleAssignDevice_def Let_def split: option.split)

lemma handleAssignDevice_other_tables:
  "db_planes (snd (handleAssignDevice w reload (st, db))) = db_planes db"
  "db_sessions (snd (handleAssignDevice w reload (st, db))) = db_sessions db"
  by (simp_all add: handleAssignDevice_def Let_def split: option.split)

lemma handleAssignDevice_plane_ids:
  "map plane_id (db_devices (snd (handleAssignDevice w reload (st, db)))) = map plane_id (db_devices db)"
  by (simp add: handleAssignDevice_devices split: option.split)

lemma handleAssignDevice_unchanged:
  "ad_selectedDevice st = None \<Longrightarrow> snd (handleAssignDevice w reload (st, db)) = db"
  "ad_selectedDevice st = Some sel \<Longrightarrow> w = Some msg \<Longrightarrow>
     snd (handleAssignDevice w reload (st, db)) = db
     \<and> ad_error (fst (handleAssignDevice w reload (st, db))) = Some msg"
  by (simp_all add: handleAssignDevice_def Let_def)

text \<open>
  C4, as the code has it: when the gateway applies the write, the rows of the selected
  device get the owner of the form (null for an empty field) and the name of the form
  (null for an empty field); every other row and every other column, the plane reference
  among them, stays as it was, as do the planes and the sessions. Without a selected
  device, or when the gateway rejects the write, nothing is written. So the operation
  keeps "a plane reference only on a device with an owner" when the new owner is not
  empty, or when no row of the selected device has a plane reference.
\<close>

theorem handleAssignDevice_leaves_plane:
  "(w = None \<and> ad_selectedDevice st = Some sel \<longrightarrow>
      db_devices (snd (handleAssignDevice w reload (st, db)))
        = map (\<lambda>d. if device_uuid d = device_uuid sel
                    then d\<lparr>user_id := or_null (assign_user_id st),
                           name := or_null (assign_name st)\<rparr>
                    else d) (db_devices db))
   \<and> (ad_selectedDevice st = None \<longrightarrow> snd (handleAssignDevice w reload (st, db)) = db)
   \<and> (ad_selectedDevice st = Some sel \<and> w = Some msg \<longrightarrow>
        snd (handleAssignDevice w reload (st, db)) = db
        \<and> ad_error (fst (handleAssignDevice w reload (st, db))) = Some msg)
   \<and> map plane_id (db_devices (snd (handleAssignDevice w reload (st, db)))) = map plane_id (db_devices db)
   \<and> db_planes (snd (handleAssignDevice w reload (st, db))) = db_planes db
   \<and> db_sessions (snd (handleAssignDevice w reload (st, db))) = db_sessions db
   \<and> ((\<forall>d\<in>set (db_devices db). owner_before_plane d)
        \<and> (assign_user_id st \<noteq> []
            \<or> (\<forall>d\<in>set (db_devices db). \<forall>sel. ad_selectedDevice st = Some sel
                  \<and> device_uuid d = device_uuid sel \<longrightarrow> plane_id d = None))
        \<longrightarrow> (\<forall>d\<in>set (db_devices (snd (handleAssignDevice w reload (st, db)))).
               owner_before_plane d))"
proof (intro conjI impI)
  assume "w = None \<and> ad_selectedDevice st = Some sel"
  then show "db_devices (snd (handleAssignDevice w reload (st, db)))
        = map (\<lambda>d. if device_uuid d = device_uuid sel
                    then d\<lparr>user_id := or_null (assign_user_id st),
                           name := or_null (assign_name st)\<rparr>
                    else d) (db_devices db)"
    by (simp add: handleAssignDevice_devices)
next
  assume "ad_selectedDevice st = None"
  then show "snd (handleAssignDevice w reload (st, db)) = db"
    by (rule handleAssignDevice_unchanged(1))
next
  assume "ad_selectedDevice st = Some sel \<and> w = Some msg"
  then have "ad_selectedDevice st = Some sel" "w = Some msg"
    by simp_all
  from handleAssignDevice_unchanged(2) [OF this]
  show "snd (handleAssignDevice w reload (st, db)) = db"
    "ad_error (fst (handleAssignDevice w reload (st, db))) = Some msg"
    by simp_all
next
  show "map plane_id (db_devices (snd (handleAssignDevice w reload (st, db)))) = map plane_id (db_devices db)"
    by (rule handleAssignDevice_plane_ids)
  show "db_planes (snd (handleAssignDevice w reload (st, db))) = db_planes db"
    "db_sessions (snd (handleAssignDevice w reload (st, db))) = db_sessions db"
    by (rule handleAssignDevice_other_tables)+
next
  assume h: "(\<forall>d\<in>set (db_devices db). owner_before_plane d)
        \<and> (assign_user_id st \<noteq> []
            \<or> (\<forall>d\<in>set (db_devices db). \<forall>sel. ad_selectedDevice st = Some sel
                  \<and> device_uuid d = device_uuid sel \<longrightarrow> plane_id d = None))"
  show "\<forall>d\<in>set (db_devices (snd (handleAssignDevice w reload (st, db)))). owner_before_plane d"
  proof (cases "ad_selectedDevice st")
    case None
    then show ?thesis
      using h by (simp add: handleAssignDevice_devices)
  next
    case (Some sel')
    show ?thesis
    proof (cases w)
      case (Some msg')
      then show ?thesis
        using h \<open>ad_selectedDevice st = Some sel'\<close> by (simp add: handleAssignDevice_devices)
    next
      case None
      then show ?thesis
        using h \<open>ad_selectedDevice st = Some sel'\<close>
        by (auto simp: handleAssignDevice_devices owner_before_plane_def or_null_def)
    qed
  qed
qed

theorem handleAssignDevice_leaves_plane_witness:
  "db_devices (snd (handleAssignDevice None id
        (assignDialog (mkDevice ''d1'' (Some ''u1'') (Some ''p1'') None) ''u2'' ''spare'',
         \<lparr>db_devices = [mkDevice ''d1'' (Some ''u1'') (Some ''p1'') None,
                         mkDevice ''d2'' (Some ''u1'') None (Some ''left'')],
           db_planes = [mkPlane ''p1'' ''u1'' ''N1''], db_sessions = []\<rparr>)))
     = [mkDevice ''d1'' (Some ''u2'') (Some ''p1'') (Some ''spare''),
        mkDevice ''d2'' (Some ''u1'') None (Some ''left'')]
   \<and> map owner_before_plane
     (db_devices (snd (handleAssignDevice None id
        (assignDialog (mkDevice ''d1'' (Some ''u1'') (Some ''p1'') None) ''u2'' ''spare'',
         \<lparr>db_devices = [mkDevice ''d1'' (Some ''u1'') (Some ''p1'') None,
                         mkDevice ''d2'' (Some ''u1'') None (Some ''left'')],
           db_planes = [mkPlane ''p1'' ''u1'' ''N1''], db_sessions = []\<rparr>)))) = [True, True]
   \<and> snd (handleAssignDevice (Some ''denied'') id
        (assignDialog (mkDevice ''d1'' (Some ''u1'') (Some ''p1'') None) ''u2'' ''spare'',
         \<lparr>db_devices = [mkDevice ''d1'' (Some ''u1'') (Some ''p1'') None,
                         mkDevice ''d2'' (Some ''u1'') None (Some ''left'')],
           db_planes = [mkPlane ''p1'' ''u1'' ''N1''], db_sessions = []\<rparr>))
     = \<lparr>db_devices = [mkDevice ''d1'' (Some ''u1'') (Some ''p1'') None,
                         mkDevice ''d2'' (Some ''u1'') None (Some ''left'')],
           db_planes = [mkPlane ''p1'' ''u1'' ''N1''], db_sessions = []\<rparr>"
  using handleAssignDevice_leaves_plane
    [where w = None and reload = id
       and st = "assignDialog (mkDevice ''d1'' (Some ''u1'') (Some ''p1'') None) ''u2'' ''spare''"
       and sel = "Device.extend (mkDevice ''d1'' (Some ''u1'') (Some ''p1'') None)
                    (DeviceWithOwner.fields None)"
       and db = "\<lparr>db_devices = [mkDevice ''d1'' (Some ''u1'') (Some ''p1'') None,
                         mkDevice ''d2'' (Some ''u1'') None (Some ''left'')],
           db_planes = [mkPlane ''p1'' ''u1'' ''N1''], db_sessions = []\<rparr>"]
    handleAssignDevice_leaves_plane
    [where w = "Some ''denied''" and msg = "''denied''" and reload = id
       and st = "assignDialog (mkDevice ''d1'' (Some ''u1'') (Some ''p1'') None) ''u2'' ''spare''"
       and sel = "Device.extend (mkDevice ''d1'' (Some ''u1'') (Some ''p1'') None)
                    (DeviceWithOwner.fields None)"
       and db = "\<lparr>db_devices = [mkDevice ''d1'' (Some ''u1'') (Some ''p1'') None,
                         mkDevice ''d2'' (Some ''u1'') None (Some ''left'')],
           db_planes = [mkPlane ''p1'' ''u1'' ''N1''], db_sessions = []\<rparr>"]
  by (simp add: assignDialog_def mkDevice_def owner_before_plane_def
      or_null_def Device.defs DeviceWithOwner.defs)

text \<open>
  C4 as stated fails: clearing the owner of a device that is assigned to a plane leaves
  the plane reference in place, and the device then has a plane and no owner.
\<close>

theorem clear_owner_keeps_plane_counterexample:
  "map owner_before_plane [mkDevice ''d1'' (Some ''u1'') (Some ''p1'') None] = [True]
   \<and> map owner_before_plane
     (db_devices (snd (handleAssignDevice None id
        (assignDialog (mkDevice ''d1'' (Some ''u1'') (Some ''p1'') None) [] ''spare'',
         \<lparr>db_devices = [mkDevice ''d1'' (Some ''u1'') (Some ''p1'') None],
           db_planes = [mkPlane ''p1'' ''u1'' ''N1''], db_sessions = []\<rparr>)))) = [False]
   \<and> map plane_id
     (db_devices (snd (handleAssignDevice None id
        (assignDialog (mkDevice ''d1'' (Some ''u1'') (Some ''p1'') None) [] ''spare'',
         \<lparr>db_devices = [mkDevice ''d1'' (Some ''u1'') (Some ''p1'') None],
           db_planes = [mkPlane ''p1'' ''u1'' ''N1''], db_sessions = []\<rparr>)))) = [Some ''p1'']
   \<and> map user_id
     (db_devices (snd (handleAssignDevice None id
        (assignDialog (mkDevice ''d1'' (Some ''u1'') (Some ''p1'') None) [] ''spare'',
         \<lparr>db_devices = [mkDevice ''d1'' (Some ''u1'') (Some ''p1'') None],
           db_planes = [mkPlane ''p1'' ''u1'' ''N1''], db_sessions = []\<rparr>)))) = [None]"
  by (simp add: handleAssignDevice_def assignDialog_def mkDevice_def owner_before_plane_def
      or_null_def Let_def Device.defs DeviceWithOwner.defs)

lemma handleUpdateDevice_devices:
  "db_devices (snd (handleUpdateDevice w u da pa (st, db)))
     = (case (selectedDevice st, w) of
          (Some sel, None) \<Rightarrow>
            map (\<lambda>d. if device_uuid d = device_uuid sel
                      then d\<lparr>name := or_null (formData_name st),
                             plane_id := or_null (formData_plane_id st)\<rparr>
                      else d) (db_devices db)
        | _ \<Rightarrow> db_devices db)"
  by (simp add: handleUpdateDevice_def Let_def split: option.split)

lemma handleUpdateDevice_other_tables:
  "db_planes (snd (handleUpdateDevice w u da pa (st, db))) = db_planes db"
  "db_sessions (snd (handleUpdateDevice w u da pa (st, db))) = db_sessions db"
  by (simp_all add: handleUpdateDevice_def Let_def split: option.split)

lemma handleUpdateDevice_rejected:
  assumes "w = Some msg" "selectedDevice st = Some sel"
  shows "snd (handleUpdateDevice w u da pa (st, db)) = db"
    and "dl_error (fst (handleUpdateDevice w u da pa (st, db))) = Some msg"
  using assms by (simp_all add: handleUpdateDevice_def Let_def)

lemma handleUpdateDevice_ignores_planes:
  "snd (handleUpdateDevice w u da pa (st, db\<lparr>db_planes := ps\<rparr>))
     = (snd (handleUpdateDevice w u da pa (st, db)))\<lparr>db_planes := ps\<rparr>"
  by (simp add: handleUpdateDevice_def Let_def split: option.split)

text \<open>
  C5, as the code has it: the device update checks no ownership. When the gateway
  rejects the write, nothing is written and the gateway's message is the view's error.
  When the gateway applies it, the rows of the selected device get the name and the plane
  reference of the form (null for an empty field), whoever owns that plane: the write
  never reads the planes table, and it changes no owner, no plane and no session.
\<close>

theorem handleUpdateDevice_writes_unchecked:
  "(w = Some msg \<and> selectedDevice st = Some sel \<longrightarrow>
      snd (handleUpdateDevice w u da pa (st, db)) = db
      \<and> dl_error (fst (handleUpdateDevice w u da pa (st, db))) = Some msg)
   \<and> (w = None \<and> selectedDevice st = Some sel \<longrightarrow>
      db_devices (snd (handleUpdateDevice w u da pa (st, db)))
        = map (\<lambda>d. if device_uuid d = device_uuid sel
                    then d\<lparr>name := or_null (formData_name st),
                           plane_id := or_null (formData_plane_id st)\<rparr>
                    else d) (db_devices db))
   \<and> map user_id (db_devices (snd (handleUpdateDevice w u da pa (st, db))))
        = map user_id (db_devices db)
   \<and> db_planes (snd (handleUpdateDevice w u da pa (st, db))) = db_planes db
   \<and> db_sessions (snd (handleUpdateDevice w u da pa (st, db))) = db_sessions db
   \<and> snd (handleUpdateDevice w u da pa (st, db\<lparr>db_planes := ps\<rparr>))
        = (snd (handleUpdateDevice w u da pa (st, db)))\<lparr>db_planes := ps\<rparr>"
proof (intro conjI impI)
  assume "w = Some msg \<and> selectedDevice st = Some sel"
  then have "w = Some msg" "selectedDevice st = Some sel"
    by simp_all
  then show "snd (handleUpdateDevice w u da pa (st, db)) = db"
    "dl_error (fst (handleUpdateDevice w u da pa (st, db))) = Some msg"
    by (rule handleUpdateDevice_rejected)+
next
  assume "w = None \<and> selectedDevice st = Some sel"
  then show "db_devices (snd (handleUpdateDevice w u da pa (st, db)))
        = map (\<lambda>d. if device_uuid d = device_uuid sel
                    then d\<lparr>name := or_null (formData_name st),
                           plane_id := or_null (formData_plane_id st)\<rparr>
                    else d) (db_devices db)"
    by (simp add: handleUpdateDevice_devices)
next
  show "map user_id (db_devices (snd (handleUpdateDevice w u da pa (st, db))))
        = map user_id (db_devices db)"
    by (simp add: handleUpdateDevice_devices split: option.split)
  show "db_planes (snd (handleUpdateDevice w u da pa (st, db))) = db_planes db"
    "db_sessions (snd (handleUpdateDevice w u da pa (st, db))) = db_sessions db"
    by (rule handleUpdateDevice_other_tables)+
  show "snd (handleUpdateDevice w u da pa (st, db\<lparr>db_planes := ps\<rparr>))
        = (snd (handleUpdateDevice w u da pa (st, db)))\<lparr>db_planes := ps\<rparr>"
    by (rule handleUpdateDevice_ignores_planes)
qed

theorem handleUpdateDevice_writes_unchecked_witness:
  "snd (handleUpdateDevice (Some ''denied'') (Some ''userB'') (Response (Some []) None)
        (Response (Some []) None)
        (editDialog (mkDevice ''d1'' (Some ''userB'') None None) ''spare'' ''p1'',
         \<lparr>db_devices = [mkDevice ''d1'' (Some ''userB'') None None],
           db_planes = [mkPlane ''p1'' ''userB'' ''N1''], db_sessions = []\<rparr>))
     = \<lparr>db_devices = [mkDevice ''d1'' (Some ''userB'') None None],
           db_planes = [mkPlane ''p1'' ''userB'' ''N1''], db_sessions = []\<rparr>
   \<and> dl_error (fst (handleUpdateDevice (Some ''denied'') (Some ''userB'') (Response (Some []) None)
        (Response (Some []) None)
        (editDialog (mkDevice ''d1'' (Some ''userB'') None None) ''spare'' ''p1'',
         \<lparr>db_devices = [mkDevice ''d1'' (Some ''userB'') None None],
           db_planes = [mkPlane ''p1'' ''userB'' ''N1''], db_sessions = []\<rparr>))) = Some ''denied''
   \<and> map plane_id (db_devices (snd (handleUpdateDevice None (Some ''userB'') (Response (Some []) None)
        (Response (Some []) None)
        (editDialog (mkDevice ''d1'' (Some ''userB'') None None) ''spare'' ''p1'',
         \<lparr>db_devices = [mkDevice ''d1'' (Some ''userB'') None None],
           db_planes = [mkPlane ''p1'' ''userB'' ''N1''], db_sessions = []\<rparr>)))) = [Some ''p1'']"
  using handleUpdateDevice_writes_unchecked
    [of "Some ''denied''" "''denied''"
        "editDialog (mkDevice ''d1'' (Some ''userB'') None None) ''spare'' ''p1''"
        "mkDevice ''d1'' (Some ''userB'') None None" "Some ''userB''"
        "Response (Some []) None" "Response (Some []) None"
        "\<lparr>db_devices = [mkDevice ''d1'' (Some ''userB'') None None],
           db_planes = [mkPlane ''p1'' ''userB'' ''N1''], db_sessions = []\<rparr>" "[]"]
    handleUpdateDevice_writes_unchecked
    [of None "''denied''"
        "editDialog (mkDevice ''d1'' (Some ''userB'') None None) ''spare'' ''p1''"
        "mkDevice ''d1'' (Some ''userB'') None None" "Some ''userB''"
        "Response (Some []) None" "Response (Some []) None"
        "\<lparr>db_devices = [mkDevice ''d1'' (Some ''userB'') None None],
           db_planes = [mkPlane ''p1'' ''userB'' ''N1''], db_sessions = []\<rparr>" "[]"]
  by (simp add: editDialog_def mkDevice_def or_null_def)

text \<open>
  C5 as stated fails: a device of user B is given a plane of user A; the write goes
  through, the device now refers to that plane, and no error is signalled.
\<close>

theorem cross_owner_plane_counterexample:
  "user_id (mkDevice ''d1'' (Some ''userB'') None None) = Some ''userB''
   \<and> plane_user_id (mkPlane ''p1'' ''userA'' ''N1'') = ''userA''
   \<and> map plane_id (db_devices (snd (handleUpdateDevice None (Some ''userB'')
        (Response (Some []) None) (Response (Some []) None)
        (editDialog (mkDevice ''d1'' (Some ''userB'') None None) ''spare'' ''p1'',
         \<lparr>db_devices = [mkDevice ''d1'' (Some ''userB'') None None],
           db_planes = [mkPlane ''p1'' ''userA'' ''N1''], db_sessions = []\<rparr>)))) = [Some ''p1'']
   \<and> dl_error (fst (handleUpdateDevice None (Some ''userB'')
        (Response (Some []) None) (Response (Some []) None)
        (editDialog (mkDevice ''d1'' (Some ''userB'') None None) ''spare'' ''p1'',
         \<lparr>db_devices = [mkDevice ''d1'' (Some ''userB'') None None],
           db_planes = [mkPlane ''p1'' ''userA'' ''N1''], db_sessions = []\<rparr>))) = None"
  by (simp add: handleUpdateDevice_def fetchData_def editDialog_def mkDevice_def mkPlane_def
      or_null_def Let_def)

text \<open>
  C10: deleting a device changes neither the sessions nor the planes, and keeps every
  device with another token; after a confirmed delete that the gateway applied, exactly
  the rows with the given token are gone, and otherwise the devices are unchanged too.
\<close>

theorem handleDeleteDevice_frame:
  "db_sessions (snd (handleDeleteDevice c w u da pa uuid (st, db))) = db_sessions db
   \<and> db_planes (snd (handleDeleteDevice c w u da pa uuid (st, db))) = db_planes db
   \<and> filter (\<lambda>d. device_uuid d \<noteq> uuid) (db_devices (snd (handleDeleteDevice c w u da pa uuid (st, db))))
       = filter (\<lambda>d. device_uuid d \<noteq> uuid) (db_devices db)
   \<and> db_devices (snd (handleDeleteDevice c w u da pa uuid (st, db)))
       = (if c \<and> w = None then filter (\<lambda>d. device_uuid d \<noteq> uuid) (db_devices db)
          else db_devices db)"
  by (simp add: handleDeleteDevice_def Let_def split: option.split)

theorem handleDeleteDevice_frame_witness:
  "db_sessions (snd (handleDeleteDevice True None (Some ''u1'') (Response (Some []) None)
        (Response (Some []) None) ''d1''
        (editDialog (mkDevice ''d1'' (Some ''u1'') None None) [] [],
         \<lparr>db_devices = [mkDevice ''d1'' (Some ''u1'') None None, mkDevice ''d2'' (Some ''u1'') None None],
           db_planes = [], db_sessions = [(mkSession Closed 3600)\<lparr>session_device_uuid := ''d1''\<rparr>]\<rparr>)))
     = [(mkSession Closed 3600)\<lparr>session_device_uuid := ''d1''\<rparr>]
   \<and> map device_uuid (db_devices (snd (handleDeleteDevice True None (Some ''u1'') (Response (Some []) None)
        (Response (Some []) None) ''d1''
        (editDialog (mkDevice ''d1'' (Some ''u1'') None None) [] [],
         \<lparr>db_devices = [mkDevice ''d1'' (Some ''u1'') None None, mkDevice ''d2'' (Some ''u1'') None None],
           db_planes = [], db_sessions = [(mkSession Closed 3600)\<lparr>session_device_uuid := ''d1''\<rparr>]\<rparr>))))
     = [''d2'']"
  using handleDeleteDevice_frame
    [of True None "Some ''u1''" "Response (Some []) None" "Response (Some []) None" "''d1''"
        "editDialog (mkDevice ''d1'' (Some ''u1'') None None) [] []"
        "\<lparr>db_devices = [mkDevice ''d1'' (Some ''u1'') None None, mkDevice ''d2'' (Some ''u1'') None None],
           db_planes = [], db_sessions = [(mkSession Closed 3600)\<lparr>session_device_uuid := ''d1''\<rparr>]\<rparr>"]
  by (simp add: mkDevice_def)

section \<open>CSV export\<close>

lemma csvLines_length:
  "length (csvLines fd fs sessions) = length (filteredSessions fd fs sessions) + 1"
  by (simp add: csvLines_def Let_def)

lemma csvRow_length: "length (csvRow s) = 6"
  by (simp add: csvRow_def)

lemma header_line: "join '','' headers = ''Session Start,Device,Plane,Duration,Status,Last Update''"
  by (simp add: join_def headers_def)

lemma csvLines_eq:
  "csvLines fd fs sessions
     = ''Session Start,Device,Plane,Duration,Status,Last Update''
       # map (\<lambda>s. join '','' (map (\<lambda>cell. [CHR 0x22] @ cell @ [CHR 0x22]) (csvRow s)))
           (filteredSessions fd fs sessions)"
  by (simp add: csvLines_def Let_def join_def headers_def comp_def)

lemma csvRow_nonempty: "csvRow s \<noteq> []"
  by (simp add: csvRow_def)

lemma csvRow_duration: "csvRow s ! 3 = formatDuration (run_seconds s)"
  by (simp add: csvRow_def)

text \<open>
  C7, as the code has it: the first line is the six column names joined by commas, with
  no quotes around them; every further line belongs to one filtered session and is its six
  cells, each wrapped in double quotes, joined by commas; the document is the lines joined
  by line feeds.
\<close>

theorem csv_layout:
  "csvLines fd fs sessions
     = ''Session Start,Device,Plane,Duration,Status,Last Update''
       # map (\<lambda>s. join '','' (map (\<lambda>cell. [CHR 0x22] @ cell @ [CHR 0x22]) (csvRow s)))
           (filteredSessions fd fs sessions)
   \<and> exportToCSV fd fs sessions = join [CHR 0x0A] (csvLines fd fs sessions)
   \<and> (\<forall>s\<in>set (filteredSessions fd fs sessions).
         length (csvRow s) = 6
         \<and> (\<forall>f\<in>set (map (\<lambda>cell. [CHR 0x22] @ cell @ [CHR 0x22]) (csvRow s)). is_quoted f))"
proof (intro conjI ballI)
  show "csvLines fd fs sessions
     = ''Session Start,Device,Plane,Duration,Status,Last Update''
       # map (\<lambda>s. join '','' (map (\<lambda>cell. [CHR 0x22] @ cell @ [CHR 0x22]) (csvRow s)))
           (filteredSessions fd fs sessions)"
    by (simp add: csvLines_def Let_def header_line comp_def)
  show "exportToCSV fd fs sessions = join [CHR 0x0A] (csvLines fd fs sessions)"
    by (simp add: exportToCSV_def)
next
  fix s
  show "length (csvRow s) = 6"
    by (rule csvRow_length)
next
  fix s f
  assume "f \<in> set (map (\<lambda>cell. [CHR 0x22] @ cell @ [CHR 0x22]) (csvRow s))"
  then show "is_quoted f"
    by (auto simp: is_quoted_def)
qed

theorem csv_layout_witness:
  "csvLines [] ''closed''
      [mkSessionWithDevice ''d1'' Closed 3600 None, mkSessionWithDevice ''d1'' Open 60 None]
     = [''Session Start,Device,Plane,Duration,Status,Last Update'',
        [CHR 0x22, CHR 0x22] @ '','' @ [CHR 0x22] @ ''d1'' @ [CHR 0x22] @ '',''
          @ [CHR 0x22] @ ''N/A'' @ [CHR 0x22] @ '','' @ [CHR 0x22] @ ''1h 0m'' @ [CHR 0x22] @ '',''
          @ [CHR 0x22] @ ''closed'' @ [CHR 0x22] @ '','' @ [CHR 0x22] @ ''N/A'' @ [CHR 0x22]]"
proof -
  have f: "filteredSessions [] ''closed''
      [mkSessionWithDevice ''d1'' Closed 3600 None, mkSessionWithDevice ''d1'' Open 60 None]
    = [mkSessionWithDevice ''d1'' Closed 3600 None]"
    by (simp add: filteredSessions_def mkSessionWithDevice_def mkSession_def Session.defs
        SessionWithDevice.defs)
  have d: "formatDuration 3600 = ''1h 0m''"
    by code_simp
  have r: "csvRow (mkSessionWithDevice ''d1'' Closed 3600 None)
      = ['''', ''d1'', ''N/A'', ''1h 0m'', ''closed'', ''N/A'']"
    by (simp add: csvRow_def mkSessionWithDevice_def mkSession_def Session.defs
        SessionWithDevice.defs str_or_def d)
  show ?thesis
    using csv_layout [of "[]" "''closed''"
        "[mkSessionWithDevice ''d1'' Closed 3600 None, mkSessionWithDevice ''d1'' Open 60 None]"]
    by (simp add: f r join_def)
qed

text \<open>
  C7 as stated fails: the fields of the header line are not double-quoted.
\<close>

theorem header_unquoted_counterexample:
  "hd (split_on (CHR 0x0A) (exportToCSV [] [] [mkSessionWithDevice ''d1'' Closed 3600 None]))
     = ''Session Start,Device,Plane,Duration,Status,Last Update''
   \<and> \<not> list_all is_quoted
       (split_on (CHR '','')
          (hd (split_on (CHR 0x0A) (exportToCSV [] [] [mkSessionWithDevice ''d1'' Closed 3600 None]))))"
  by code_simp

subsection \<open>Reading the export back\<close>

lemma foldl_join_prefix:
  "foldl (\<lambda>acc z. acc @ sep @ z) (p @ q) zs = p @ foldl (\<lambda>acc z. acc @ sep @ z) q zs"
  by (induction zs arbitrary: q) simp_all

lemma join_single: "join sep [y] = y"
  by (simp add: join_def)

lemma join_more: "join sep (y # z # zs) = y @ sep @ join sep (z # zs)"
  using foldl_join_prefix [of sep "y @ sep" z zs] by (simp add: join_def)

lemma read_quoted_cell:
  "CHR 0x22 \<notin> set cell \<Longrightarrow>
     readCSV_from InQuoted fld row rows (cell @ CHR 0x22 # rest)
       = readCSV_from AfterQuote (rev cell @ fld) row rows rest"
  by (induction cell arbitrary: fld) auto

lemma read_quoted_field:
  assumes "CHR 0x22 \<notin> set cell"
  shows "readCSV_from FieldStart [] row rows ([CHR 0x22] @ cell @ [CHR 0x22] @ rest)
           = readCSV_from AfterQuote (rev cell) row rows rest"
  using read_quoted_cell [OF assms, of "[]" row rows rest] by simp

lemma read_comma_after_quote:
  "readCSV_from AfterQuote fld row rows ('','' @ rest)
     = readCSV_from FieldStart [] (rev fld # row) rows rest"
  by simp

lemma read_newline_after_quote:
  "readCSV_from AfterQuote fld row rows ([CHR 0x0A] @ rest)
     = readCSV_from FieldStart [] [] (rev (rev fld # row) # rows) rest"
  by simp

lemma read_row:
  assumes "cells \<noteq> []" "\<forall>c\<in>set cells. CHR 0x22 \<notin> set c"
  shows "readCSV_from FieldStart [] row rows
           (join '','' (map (\<lambda>cell. [CHR 0x22] @ cell @ [CHR 0x22]) cells) @ rest)
         = readCSV_from AfterQuote (rev (last cells)) (rev (butlast cells) @ row) rows rest"
  using assms
proof (induction cells arbitrary: row rule: induct_list012)
  case 1
  then show ?case by simp
next
  case (2 c)
  then have "CHR 0x22 \<notin> set c" by simp
  from read_quoted_field [OF this, of row rows rest] show ?case
    by (simp add: join_single)
next
  case (3 c c' cs)
  then have c: "CHR 0x22 \<notin> set c" and rest_ok: "\<forall>x\<in>set (c' # cs). CHR 0x22 \<notin> set x"
    by simp_all
  let ?tail = "join '','' (map (\<lambda>cell. [CHR 0x22] @ cell @ [CHR 0x22]) (c' # cs)) @ rest"
  have "join '','' (map (\<lambda>cell. [CHR 0x22] @ cell @ [CHR 0x22]) (c # c' # cs)) @ rest
      = [CHR 0x22] @ c @ [CHR 0x22] @ ('','' @ ?tail)"
    by (simp add: join_more)
  then have "readCSV_from FieldStart [] row rows
      (join '','' (map (\<lambda>cell. [CHR 0x22] @ cell @ [CHR 0x22]) (c # c' # cs)) @ rest)
      = readCSV_from AfterQuote (rev c) row rows ('','' @ ?tail)"
    using read_quoted_field [OF c, of row rows "'','' @ ?tail"] by simp
  also have "\<dots> = readCSV_from FieldStart [] (c # row) rows ?tail"
    by (simp only: read_comma_after_quote rev_rev_ident)
  also have "\<dots> = readCSV_from AfterQuote (rev (last (c' # cs))) (rev (butlast (c' # cs)) @ c # row) rows rest"
    using "3.IH"(2) [of "c # row"] rest_ok by simp
  finally show ?case by simp
qed

lemma read_rows:
  assumes "rs \<noteq> []" "\<forall>r\<in>set rs. r \<noteq> [] \<and> (\<forall>c\<in>set r. CHR 0x22 \<notin> set c)"
  shows "readCSV_from FieldStart [] [] rows
           (join [CHR 0x0A]
              (map (\<lambda>r. join '','' (map (\<lambda>cell. [CHR 0x22] @ cell @ [CHR 0x22]) r)) rs))
         = rev rows @ rs"
  using assms
proof (induction rs arbitrary: rows rule: induct_list012)
  case 1
  then show ?case by simp
next
  case (2 r)
  then have r: "r \<noteq> []" "\<forall>c\<in>set r. CHR 0x22 \<notin> set c" by simp_all
  have "rev (last r # rev (butlast r)) = r"
    using r(1) by simp
  then show ?case
    using read_row [OF r, of "[]" rows "[]"] by (simp add: join_single)
next
  case (3 r r' rs)
  then have r: "r \<noteq> []" "\<forall>c\<in>set r. CHR 0x22 \<notin> set c"
    and rest_ok: "\<forall>x\<in>set (r' # rs). x \<noteq> [] \<and> (\<forall>c\<in>set x. CHR 0x22 \<notin> set c)"
    by simp_all
  let ?line = "\<lambda>r. join '','' (map (\<lambda>cell. [CHR 0x22] @ cell @ [CHR 0x22]) r)"
  let ?tail = "join [CHR 0x0A] (map ?line (r' # rs))"
  have whole: "rev (last r # rev (butlast r)) = r"
    using r(1) by simp
  have "join [CHR 0x0A] (map ?line (r # r' # rs)) = ?line r @ ([CHR 0x0A] @ ?tail)"
    by (simp add: join_more)
  then have "readCSV_from FieldStart [] [] rows (join [CHR 0x0A] (map ?line (r # r' # rs)))
      = readCSV_from AfterQuote (rev (last r)) (rev (butlast r) @ []) rows ([CHR 0x0A] @ ?tail)"
    using read_row [OF r, of "[]" rows "[CHR 0x0A] @ ?tail"] by simp
  also have "\<dots> = readCSV_from FieldStart [] [] (r # rows) ?tail"
    by (simp only: read_newline_after_quote rev_rev_ident append_Nil2 whole)
  also have "\<dots> = rev (r # rows) @ (r' # rs)"
    using "3.IH"(2) [of "r # rows"] rest_ok by simp
  finally show ?case by simp
qed

lemma read_header:
  "readCSV_from FieldStart [] [] []
     (''Session Start,Device,Plane,Duration,Status,Last Update'' @ [CHR 0x0A] @ rest)
   = readCSV_from FieldStart [] [] [headers] rest"
  by (simp add: headers_def)

lemma read_header_only:
  "readCSV ''Session Start,Device,Plane,Duration,Status,Last Update'' = [headers]"
  by (simp add: readCSV_def headers_def)

text \<open>
  The filter comes first: the lines are made from the filtered sessions, as are the totals
  of the view. When no exported cell contains a double quote, reading the text back gives
  the header and one row per filtered session, with the durations as they were written.
\<close>

lemma export_reparse:
  assumes "\<forall>s\<in>set (filteredSessions fd fs sessions). \<forall>c\<in>set (csvRow s). CHR 0x22 \<notin> set c"
  shows "readCSV (exportToCSV fd fs sessions)
           = headers # map csvRow (filteredSessions fd fs sessions)"
proof (cases "filteredSessions fd fs sessions")
  case Nil
  then show ?thesis
    by (simp add: exportToCSV_def csvLines_eq join_single read_header_only)
next
  case (Cons s ss)
  let ?line = "\<lambda>r. join '','' (map (\<lambda>cell. [CHR 0x22] @ cell @ [CHR 0x22]) r)"
  let ?rs = "map csvRow (filteredSessions fd fs sessions)"
  have ne: "?rs \<noteq> []"
    using Cons by simp
  have ok: "\<forall>r\<in>set ?rs. r \<noteq> [] \<and> (\<forall>c\<in>set r. CHR 0x22 \<notin> set c)"
    using assms csvRow_nonempty by auto
  have lines: "csvLines fd fs sessions
      = ''Session Start,Device,Plane,Duration,Status,Last Update'' # map ?line ?rs"
    by (simp add: csvLines_eq comp_def)
  obtain l ls where l: "map ?line ?rs = l # ls"
    using ne by (cases "map ?line ?rs") auto
  have "exportToCSV fd fs sessions
      = ''Session Start,Device,Plane,Duration,Status,Last Update'' @ [CHR 0x0A]
        @ join [CHR 0x0A] (map ?line ?rs)"
    unfolding exportToCSV_def lines l by (simp add: join_more)
  then have "readCSV (exportToCSV fd fs sessions)
      = readCSV_from FieldStart [] [] [headers] (join [CHR 0x0A] (map ?line ?rs))"
    unfolding readCSV_def using read_header [of "join [CHR 0x0A] (map ?line ?rs)"] by simp
  also have "\<dots> = rev [headers] @ ?rs"
    by (rule read_rows [OF ne ok])
  finally show ?thesis by simp
qed

lemma export_reparse_durations:
  assumes "\<forall>s\<in>set (filteredSessions fd fs sessions). \<forall>c\<in>set (csvRow s). CHR 0x22 \<notin> set c"
  shows "length (readCSV (exportToCSV fd fs sessions))
           = length (filteredSessions fd fs sessions) + 1"
    and "durationColumn (readCSV (exportToCSV fd fs sessions))
           = map (\<lambda>s. Some (formatDuration (run_seconds s))) (filteredSessions fd fs sessions)"
  by (simp_all add: export_reparse [OF assms] durationColumn_def csvRow_duration
      csvRow_def [THEN arg_cong, of length])

text \<open>
  C6: the export wraps every cell in double quotes but does not escape a double quote
  inside a cell. For a session of one hour on a device whose name is \<open>a","b\<close> the
  row has seven well-formed quoted fields instead of six, and the fourth column read back
  is \<open>N/A\<close> (the plane), not the duration \<open>1h 0m\<close>.
\<close>

theorem quote_in_name_breaks_reparse:
  "exportToCSV [] []
      [mkSessionWithDevice ''d1'' Closed 3600
         (Some (mkDevice ''d1'' (Some ''u1'') None (Some [CHR ''a'', CHR 0x22, CHR '','', CHR 0x22, CHR ''b''])))]
     = ''Session Start,Device,Plane,Duration,Status,Last Update'' @ [CHR 0x0A]
       @ [CHR 0x22, CHR 0x22] @ '','' @ [CHR 0x22, CHR ''a'', CHR 0x22] @ '',''
       @ [CHR 0x22, CHR ''b'', CHR 0x22] @ '','' @ [CHR 0x22] @ ''N/A'' @ [CHR 0x22] @ '',''
       @ [CHR 0x22] @ ''1h 0m'' @ [CHR 0x22] @ '','' @ [CHR 0x22] @ ''closed'' @ [CHR 0x22] @ '',''
       @ [CHR 0x22] @ ''N/A'' @ [CHR 0x22]
   \<and> durationColumn (readCSV (exportToCSV [] []
      [mkSessionWithDevice ''d1'' Closed 3600
         (Some (mkDevice ''d1'' (Some ''u1'') None (Some [CHR ''a'', CHR 0x22, CHR '','', CHR 0x22, CHR ''b''])))]))
     = [Some ''N/A'']
   \<and> map (\<lambda>s. formatDuration (run_seconds s)) (filteredSessions [] []
      [mkSessionWithDevice ''d1'' Closed 3600
         (Some (mkDevice ''d1'' (Some ''u1'') None (Some [CHR ''a'', CHR 0x22, CHR '','', CHR 0x22, CHR ''b''])))])
     = [''1h 0m'']
   \<and> map length (readCSV (exportToCSV [] []
      [mkSessionWithDevice ''d1'' Closed 3600
         (Some (mkDevice ''d1'' (Some ''u1'') None (Some [CHR ''a'', CHR 0x22, CHR '','', CHR 0x22, CHR ''b''])))]))
     = [6, 7]"
  by code_simp

end
